theory Spec2Isabelle
  imports Main "HOL-Library.AList"
begin

section \<open>Data model of \<open>src/server.js\<close>\<close>

text \<open>
  The server keeps one JavaScript \<open>Map\<close>, \<open>fileMetadata\<close>, from file identifiers to
  metadata objects. A \<open>Map\<close> iterates in insertion order, \<open>set\<close> on a key that is present
  replaces the value in place and \<open>set\<close> on a new key appends: this is an association list
  with \<open>AList.update\<close>, \<open>AList.delete\<close> and \<open>map_of\<close>, whose keys are distinct.
  Sizes and times are JavaScript numbers holding integers (bytes, milliseconds): \<open>int\<close>.
\<close>

record metadata =
  originalName :: string
  size_bytes :: int
  mimetype :: string
  uploadTime :: int
  filePath :: string
  filename :: string

text \<open>
  \<open>req.file\<close> as the multer disk storage hands it to the upload handler. \<open>req_fileId\<close>
  stands for \<open>path.basename(req.file.filename, path.extname(req.file.filename))\<close>, the
  hexadecimal token the storage engine drew; the \<open>path\<close> module is not part of the
  repository and its result is taken as given.
\<close>

record req_file =
  originalname :: string
  req_size :: int
  req_mimetype :: string
  req_path :: string
  req_filename :: string
  req_fileId :: string

text \<open>
  The uploads directory: the blobs that exist, and the blobs that exist but cannot be
  removed (permission, busy). \<open>fs.unlink\<close> rejects on a missing path and on an
  unremovable one; \<open>None\<close> is the rejection.
\<close>

record fs =
  blobs :: "string set"
  undeletable :: "string set"

record server =
  fileMetadata :: "(string \<times> metadata) list"
  disk :: fs

definition TTL :: int where
  "TTL = 24 * 60 * 60 * 1000"

definition MAX_STORAGE :: int where
  "MAX_STORAGE = 5 * 1024 * 1024 * 1024"

definition unlink :: "string \<Rightarrow> fs \<Rightarrow> fs option" where
  "unlink p d =
     (if p \<in> blobs d \<and> p \<notin> undeletable d then Some (d\<lparr>blobs := blobs d - {p}\<rparr>) else None)"

text \<open>\<open>fs.unlink(p).catch(console.error)\<close>: the rejection is logged and dropped.\<close>

definition unlink_catch :: "string \<Rightarrow> fs \<Rightarrow> fs" where
  "unlink_catch p d = (case unlink p d of None \<Rightarrow> d | Some d' \<Rightarrow> d')"

definition access :: "string \<Rightarrow> fs \<Rightarrow> bool" where
  "access p d = (p \<in> blobs d)"

section \<open>The reapers\<close>

text \<open>
  \<open>cleanExpiredFiles\<close>: the identifiers past 24 hours are collected first; then, for each,
  the metadata is read again, the blob is unlinked and only after that the entry is deleted,
  all in one \<open>try\<close>. A throw (the unlink rejecting, or the entry being gone) is logged.
\<close>

definition expiredFiles :: "int \<Rightarrow> (string \<times> metadata) list \<Rightarrow> string list" where
  "expiredFiles now m = map fst (filter (\<lambda>(fileId, md). now - uploadTime md > TTL) m)"

definition clean_one :: "server \<Rightarrow> string \<Rightarrow> server" where
  "clean_one s fileId =
     (case map_of (fileMetadata s) fileId of
        None \<Rightarrow> s
      | Some md \<Rightarrow>
          (case unlink (filePath md) (disk s) of
             None \<Rightarrow> s
           | Some d' \<Rightarrow> \<lparr>fileMetadata = AList.delete fileId (fileMetadata s), disk = d'\<rparr>))"

definition cleanExpiredFiles :: "int \<Rightarrow> server \<Rightarrow> server" where
  "cleanExpiredFiles now s = foldl clean_one s (expiredFiles now (fileMetadata s))"

text \<open>
  \<open>manageStorageCapacity\<close>: \<open>files\<close> is a sorted copy of the entries (the sort is stable
  and compares \<open>uploadTime\<close> only), \<open>totalSize\<close> their sum. The \<open>while\<close> loop shifts the
  first element off \<open>files\<close> and, in one \<open>try\<close>, unlinks its blob, deletes its entry and
  subtracts its size; when the unlink rejects, the two later statements are skipped.
\<close>

record loop_state =
  totalSize :: int
  files :: "(string \<times> metadata) list"
  srv :: server

definition loop_cond :: "loop_state \<Rightarrow> bool" where
  "loop_cond ls = (totalSize ls > MAX_STORAGE \<and> length (files ls) > 0)"

definition loop_body :: "loop_state \<Rightarrow> loop_state" where
  "loop_body ls =
     (case files ls of
        [] \<Rightarrow> ls
      | oldestFile # rest \<Rightarrow>
          (case unlink (filePath (snd oldestFile)) (disk (srv ls)) of
             None \<Rightarrow> ls\<lparr>files := rest\<rparr>
           | Some d' \<Rightarrow>
               \<lparr>totalSize = totalSize ls - size_bytes (snd oldestFile),
                files = rest,
                srv = \<lparr>fileMetadata = AList.delete (fst oldestFile) (fileMetadata (srv ls)),
                       disk = d'\<rparr>\<rparr>))"

function evictLoop :: "loop_state \<Rightarrow> loop_state" where
  "evictLoop ls = (if loop_cond ls then evictLoop (loop_body ls) else ls)"
  by pat_completeness auto
termination
proof (relation "measure (\<lambda>ls. length (files ls))")
  show "wf (measure (\<lambda>ls. length (files ls)))" by simp
next
  fix ls assume "loop_cond ls"
  then obtain f rest where "files ls = f # rest"
    by (cases "files ls") (auto simp: loop_cond_def)
  then show "(loop_body ls, ls) \<in> measure (\<lambda>ls. length (files ls))"
    by (simp add: loop_body_def split: option.split)
qed

declare evictLoop.simps [simp del]

text \<open>The number of times the loop body runs (an instrument, not in the source).\<close>

function iterations :: "loop_state \<Rightarrow> nat" where
  "iterations ls = (if loop_cond ls then Suc (iterations (loop_body ls)) else 0)"
  by pat_completeness auto
termination
proof (relation "measure (\<lambda>ls. length (files ls))")
  show "wf (measure (\<lambda>ls. length (files ls)))" by simp
next
  fix ls assume "loop_cond ls"
  then obtain f rest where "files ls = f # rest"
    by (cases "files ls") (auto simp: loop_cond_def)
  then show "(loop_body ls, ls) \<in> measure (\<lambda>ls. length (files ls))"
    by (simp add: loop_body_def split: option.split)
qed

declare iterations.simps [simp del]

definition initLoop :: "server \<Rightarrow> loop_state" where
  "initLoop s =
     (let files = sort_key (\<lambda>file. uploadTime (snd file)) (fileMetadata s)
      in \<lparr>totalSize = foldl (\<lambda>total file. total + size_bytes (snd file)) 0 files,
          files = files,
          srv = s\<rparr>)"

definition manageStorageCapacity :: "server \<Rightarrow> server" where
  "manageStorageCapacity s = srv (evictLoop (initLoop s))"

section \<open>The request handlers\<close>

text \<open>
  A response is what the handler sends: a JSON error with its status and message, the JSON
  body of a successful upload or metadata request, or \<open>res.sendFile\<close> with the headers set
  before it. \<open>expiresAt\<close> is kept as the millisecond timestamp given to \<open>new Date\<close>; its
  ISO rendering and the transfer done by \<open>res.sendFile\<close> belong to the runtime.
  Each \<open>Date.now()\<close> of a handler is an argument.
\<close>

datatype response =
    Json_error nat string
  | Json_uploaded string string int
  | Json_file string string int string int int
  | Send_file "(string \<times> string) list" string
  | Send_text nat string
  | Send_embed string string int "string option" string

definition startsWith :: "string \<Rightarrow> string \<Rightarrow> bool" where
  "startsWith s p = (take (length p) s = p)"

definition previewableTypes :: "string list" where
  "previewableTypes = [''image/'', ''text/'', ''application/json'', ''application/pdf'']"

definition isPreviewable :: "metadata \<Rightarrow> bool" where
  "isPreviewable md = list_ex (\<lambda>type. startsWith (mimetype md) type) previewableTypes"

text \<open>
  \<open>POST /api/upload\<close>. \<open>t_meta\<close> is the \<open>Date.now()\<close> stored as \<open>uploadTime\<close>,
  \<open>t_resp\<close> the \<open>Date.now()\<close> read for the response after the capacity pass was awaited.
\<close>

definition upload :: "req_file option \<Rightarrow> int \<Rightarrow> int \<Rightarrow> server \<Rightarrow> response \<times> server" where
  "upload file t_meta t_resp s =
     (case file of
        None \<Rightarrow> (Json_error 400 ''No file uploaded'', s)
      | Some f \<Rightarrow>
          (let fileId = req_fileId f;
               md = \<lparr>originalName = originalname f, size_bytes = req_size f,
                     mimetype = req_mimetype f, uploadTime = t_meta,
                     filePath = req_path f, filename = req_filename f\<rparr>;
               s1 = s\<lparr>fileMetadata := AList.update fileId md (fileMetadata s)\<rparr>;
               s2 = manageStorageCapacity s1
           in (Json_uploaded fileId ''File uploaded successfully'' (t_resp + TTL), s2)))"

text \<open>\<open>GET /api/file/:fileId\<close>.\<close>

definition getFile :: "string \<Rightarrow> int \<Rightarrow> server \<Rightarrow> response \<times> server" where
  "getFile fileId now s =
     (case map_of (fileMetadata s) fileId of
        None \<Rightarrow> (Json_error 404 ''File not found'', s)
      | Some md \<Rightarrow>
          if now - uploadTime md > TTL then
            (Json_error 404 ''File has expired'',
             \<lparr>fileMetadata = AList.delete fileId (fileMetadata s),
              disk = unlink_catch (filePath md) (disk s)\<rparr>)
          else
            (Json_file fileId (originalName md) (size_bytes md) (mimetype md) (uploadTime md)
               (uploadTime md + TTL), s))"

text \<open>
  \<open>res.setHeader\<close> throws on a value with a character outside tab, \<open>0x20\<close>--\<open>0x7e\<close>
  and \<open>0x80\<close>--\<open>0xff\<close>. A \<open>string\<close> here holds the UTF-8 bytes of the JavaScript
  string: a byte below 128 is that character, the lead bytes 194 and 195 with one
  continuation byte are the characters \<open>0x80\<close>--\<open>0xff\<close>, and every other lead byte
  starts a character above \<open>0xff\<close>.
\<close>

fun validHeaderValue :: "string \<Rightarrow> bool" where
  "validHeaderValue [] = True"
| "validHeaderValue [c] =
     (of_char c = (9::nat) \<or> ((32::nat) \<le> of_char c \<and> of_char c \<le> (126::nat)))"
| "validHeaderValue (c # d # cs) =
     (if of_char c < (128::nat) then
        (of_char c = (9::nat) \<or> ((32::nat) \<le> of_char c \<and> of_char c \<le> (126::nat))) \<and>
        validHeaderValue (d # cs)
      else
        (of_char c = (194::nat) \<or> of_char c = (195::nat)) \<and>
        (128::nat) \<le> of_char d \<and> of_char d \<le> (191::nat) \<and> validHeaderValue cs)"

text \<open>
  \<open>GET /api/download/:fileId\<close>. A throw of one of the two \<open>res.setHeader\<close> calls is
  caught by the handler's \<open>catch\<close>, which answers 500.
\<close>

definition download :: "string \<Rightarrow> int \<Rightarrow> server \<Rightarrow> response \<times> server" where
  "download fileId now s =
     (case map_of (fileMetadata s) fileId of
        None \<Rightarrow> (Json_error 404 ''File not found'', s)
      | Some md \<Rightarrow>
          if now - uploadTime md > TTL then
            (Json_error 404 ''File has expired'',
             \<lparr>fileMetadata = AList.delete fileId (fileMetadata s),
              disk = unlink_catch (filePath md) (disk s)\<rparr>)
          else if \<not> access (filePath md) (disk s) then
            (Json_error 404 ''File not found on disk'',
             s\<lparr>fileMetadata := AList.delete fileId (fileMetadata s)\<rparr>)
          else if validHeaderValue
                    (''attachment; filename='' @ [CHR 0x22] @ originalName md @ [CHR 0x22]) \<and>
                  validHeaderValue (mimetype md) then
            (Send_file
               [(''Content-Disposition'',
                 ''attachment; filename='' @ [CHR 0x22] @ originalName md @ [CHR 0x22]),
                (''Content-Type'', mimetype md)]
               (filePath md), s)
          else
            (Json_error 500 ''Download failed'', s))"

text \<open>
  \<open>GET /api/preview/:fileId\<close>. There is no \<open>fs.access\<close> in this handler; a throw of
  its \<open>res.setHeader\<close> is caught and answered with 500.
\<close>

definition preview :: "string \<Rightarrow> int \<Rightarrow> server \<Rightarrow> response \<times> server" where
  "preview fileId now s =
     (case map_of (fileMetadata s) fileId of
        None \<Rightarrow> (Json_error 404 ''File not found'', s)
      | Some md \<Rightarrow>
          if now - uploadTime md > TTL then
            (Json_error 404 ''File has expired'',
             \<lparr>fileMetadata = AList.delete fileId (fileMetadata s),
              disk = unlink_catch (filePath md) (disk s)\<rparr>)
          else if \<not> isPreviewable md then
            (Json_error 400 ''File type not previewable'', s)
          else if validHeaderValue (mimetype md) then
            (Send_file [(''Content-Type'', mimetype md)] (filePath md), s)
          else
            (Json_error 500 ''Preview failed'', s))"

text \<open>
  \<open>GET /file/:fileId\<close> of \<open>src/backend/server.js\<close>, the page with the embed tags. The
  handler reads no clock. \<open>Send_embed\<close> carries the title, the name and the size that go
  into the description (its rendering in megabytes is left to the runtime), the
  identifier in the preview link when the type starts with \<open>image/\<close>, and the identifier
  in the redirect.
\<close>

definition filePage :: "string \<Rightarrow> server \<Rightarrow> response \<times> server" where
  "filePage fileId s =
     (case map_of (fileMetadata s) fileId of
        None \<Rightarrow> (Send_text 404 ''File not found'', s)
      | Some md \<Rightarrow>
          (Send_embed (originalName md) (originalName md) (size_bytes md)
             (if startsWith (mimetype md) ''image/'' then Some fileId else None) fileId, s))"

text \<open>The outcomes of the specification, as the responses that stand for them.\<close>

definition NotFound :: response where
  "NotFound = Json_error 404 ''File not found''"

definition Expired :: response where
  "Expired = Json_error 404 ''File has expired''"

definition IOError :: response where
  "IOError = Json_error 404 ''File not found on disk''"

definition Rejected :: response where
  "Rejected = Json_error 400 ''File type not previewable''"

section \<open>Runs of the server\<close>

text \<open>
  What can happen to the server, one event at a time: the five requests, the two timers,
  and a blob disappearing from the uploads directory behind the server's back. Before the
  upload handler runs with a file, the storage engine has written the blob. Every handler
  and every pass of a reaper is one step: what other requests could do between the
  \<open>await\<close>s of one handler is outside this model.
\<close>

datatype event =
    Upload "req_file option" int int
  | GetFile string int
  | Download string int
  | Preview string int
  | FilePage string
  | CleanExpired int
  | ManageCapacity
  | Vanish string

fun step :: "server \<Rightarrow> event \<Rightarrow> server" where
  "step s (Upload None t_meta t_resp) = snd (upload None t_meta t_resp s)"
| "step s (Upload (Some f) t_meta t_resp) =
     snd (upload (Some f) t_meta t_resp
            (s\<lparr>disk := (disk s)\<lparr>blobs := insert (req_path f) (blobs (disk s))\<rparr>\<rparr>))"
| "step s (GetFile fileId now) = snd (getFile fileId now s)"
| "step s (Download fileId now) = snd (download fileId now s)"
| "step s (Preview fileId now) = snd (preview fileId now s)"
| "step s (FilePage fileId) = snd (filePage fileId s)"
| "step s (CleanExpired now) = cleanExpiredFiles now s"
| "step s ManageCapacity = manageStorageCapacity s"
| "step s (Vanish p) = s\<lparr>disk := (disk s)\<lparr>blobs := blobs (disk s) - {p}\<rparr>\<rparr>"

definition run :: "server \<Rightarrow> event list \<Rightarrow> server" where
  "run s evs = foldl step s evs"

fun registers :: "string \<Rightarrow> event \<Rightarrow> bool" where
  "registers fileId (Upload (Some f) t_meta t_resp) = (req_fileId f = fileId)"
| "registers fileId ev = False"

section \<open>Notions used by the properties\<close>

text \<open>The aggregate size of an index: the sum of \<open>size\<close> over its records.\<close>

definition total_size :: "(string \<times> metadata) list \<Rightarrow> int" where
  "total_size m = sum_list (map (\<lambda>file. size_bytes (snd file)) m)"


section \<open>Example states\<close>

text \<open>
  Six uploads of one gibibyte each (the largest file the upload limit admits), one
  millisecond apart, with the identifiers and paths the storage engine gives them.
\<close>

definition GiB :: int where
  "GiB = 1024 * 1024 * 1024"

definition stored :: "string \<Rightarrow> string \<Rightarrow> string \<Rightarrow> int \<Rightarrow> int \<Rightarrow> string \<times> metadata" where
  "stored fileId ext mime sz t =
     (fileId, \<lparr>originalName = ''file'' @ ext, size_bytes = sz, mimetype = mime,
               uploadTime = t, filePath = ''/app/uploads/'' @ fileId @ ext,
               filename = fileId @ ext\<rparr>)"

definition id1 :: string where "id1 = ''1a9f03c2d4e5b6a7980f1e2d3c4b5a61''"
definition id2 :: string where "id2 = ''2b8e14d3c5f6a7b8091e2f3d4c5b6a72''"
definition id3 :: string where "id3 = ''3c7d25e4d6a7b8c91a2f3e4d5c6b7a83''"
definition id4 :: string where "id4 = ''4d6c36f5e7b8c9da2b3a4f5e6d7c8b94''"
definition id5 :: string where "id5 = ''5e5b47a6f8c9daeb3c4b5a6f7e8d9ca5''"
definition id6 :: string where "id6 = ''6f4a58b7a9daebfc4d5c6b7a8f9eadb6''"

definition six_files :: "(string \<times> metadata) list" where
  "six_files =
     [stored id1 ''.zip'' ''application/zip'' GiB 1700000000001,
      stored id2 ''.zip'' ''application/zip'' GiB 1700000000002,
      stored id3 ''.zip'' ''application/zip'' GiB 1700000000003,
      stored id4 ''.zip'' ''application/zip'' GiB 1700000000004,
      stored id5 ''.zip'' ''application/zip'' GiB 1700000000005,
      stored id6 ''.zip'' ''application/zip'' GiB 1700000000006]"

text \<open>The six records with every blob in place.\<close>

definition full_store :: server where
  "full_store =
     \<lparr>fileMetadata = six_files,
      disk = \<lparr>blobs = set (map (\<lambda>e. filePath (snd e)) six_files), undeletable = {}\<rparr>\<rparr>"

text \<open>The six records after the uploads directory was emptied behind the server's back.\<close>

definition wiped_store :: server where
  "wiped_store = \<lparr>fileMetadata = six_files, disk = \<lparr>blobs = {}, undeletable = {}\<rparr>\<rparr>"

text \<open>The six records with only the oldest blob gone.\<close>

definition oldest_gone_store :: server where
  "oldest_gone_store =
     \<lparr>fileMetadata = six_files,
      disk = \<lparr>blobs = set (map (\<lambda>e. filePath (snd e)) (tl six_files)), undeletable = {}\<rparr>\<rparr>"

text \<open>An empty server, and a ten-byte text file as the storage engine hands it over.\<close>

definition empty_store :: server where
  "empty_store = \<lparr>fileMetadata = [], disk = \<lparr>blobs = {}, undeletable = {}\<rparr>\<rparr>"

definition ten_bytes :: req_file where
  "ten_bytes =
     \<lparr>originalname = ''notes.txt'', req_size = 10, req_mimetype = ''text/plain'',
      req_path = ''/app/uploads/'' @ id1 @ ''.txt'', req_filename = id1 @ ''.txt'',
      req_fileId = id1\<rparr>"

text \<open>One picture in the index whose blob is no longer in the uploads directory.\<close>

definition picture :: "string \<times> metadata" where
  "picture = stored id1 ''.png'' ''image/png'' 2048 1700000000001"

definition picture_gone_store :: server where
  "picture_gone_store =
     \<lparr>fileMetadata = [picture], disk = \<lparr>blobs = {}, undeletable = {}\<rparr>\<rparr>"

text \<open>The same picture with its blob in place.\<close>

definition picture_store :: server where
  "picture_store =
     \<lparr>fileMetadata = [picture],
      disk = \<lparr>blobs = {filePath (snd picture)}, undeletable = {}\<rparr>\<rparr>"

text \<open>The picture with its blob in place but not removable: every unlink of it rejects.\<close>

definition picture_stuck_store :: server where
  "picture_stuck_store =
     \<lparr>fileMetadata = [picture],
      disk = \<lparr>blobs = {filePath (snd picture)}, undeletable = {filePath (snd picture)}\<rparr>\<rparr>"

text \<open>The three handlers that evict an expired record when it is asked for.\<close>

definition lazy_handlers :: "(string \<Rightarrow> int \<Rightarrow> server \<Rightarrow> response \<times> server) set" where
  "lazy_handlers = {getFile, download, preview}"

text \<open>The record the upload of the ten-byte file stores, and the server after it.\<close>

definition ten_bytes_stored :: metadata where
  "ten_bytes_stored =
     \<lparr>originalName = ''notes.txt'', size_bytes = 10, mimetype = ''text/plain'',
      uploadTime = 1700000000000, filePath = ''/app/uploads/'' @ id1 @ ''.txt'',
      filename = id1 @ ''.txt''\<rparr>"

definition after_upload :: server where
  "after_upload =
     \<lparr>fileMetadata = [(id1, ten_bytes_stored)],
      disk = \<lparr>blobs = {''/app/uploads/'' @ id1 @ ''.txt''}, undeletable = {}\<rparr>\<rparr>"

text \<open>The empty server once the storage engine has written the blob of the ten-byte file.\<close>

definition after_write :: server where
  "after_write =
     \<lparr>fileMetadata = [],
      disk = \<lparr>blobs = {''/app/uploads/'' @ id1 @ ''.txt''}, undeletable = {}\<rparr>\<rparr>"



section \<open>The eviction loop\<close>

lemma loop_body_length:
  "loop_cond ls \<Longrightarrow> Suc (length (files (loop_body ls))) = length (files ls)"
  by (cases "files ls") (auto simp: loop_cond_def loop_body_def split: option.split)

lemma iterations_le: "iterations ls \<le> length (files ls)"
proof (induction ls rule: iterations.induct)
  case (1 ls)
  show ?case
  proof (cases "loop_cond ls")
    case True
    then have "iterations (loop_body ls) \<le> length (files (loop_body ls))" by (rule 1)
    with True loop_body_length [OF True] show ?thesis
      by (subst iterations.simps) simp
  next
    case False
    then show ?thesis by (subst iterations.simps) simp
  qed
qed

lemma evictLoop_funpow: "evictLoop ls = (loop_body ^^ iterations ls) ls"
proof (induction ls rule: evictLoop.induct)
  case (1 ls)
  show ?case
  proof (cases "loop_cond ls")
    case True
    then have "evictLoop (loop_body ls) = (loop_body ^^ iterations (loop_body ls)) (loop_body ls)"
      by (rule 1)
    with True show ?thesis
      by (subst evictLoop.simps, subst iterations.simps) (simp add: funpow_swap1)
  next
    case False
    then show ?thesis by (subst evictLoop.simps, subst iterations.simps) simp
  qed
qed

lemma evictLoop_stops: "\<not> loop_cond (evictLoop ls)"
proof (induction ls rule: evictLoop.induct)
  case (1 ls)
  then show ?case by (subst evictLoop.simps) simp
qed

lemma iterations_running:
  "m < iterations ls \<Longrightarrow> loop_cond ((loop_body ^^ m) ls)"
proof (induction m arbitrary: ls)
  case 0
  then show ?case by (subst (asm) iterations.simps) (simp split: if_splits)
next
  case (Suc m)
  from Suc.prems have c: "loop_cond ls" and "m < iterations (loop_body ls)"
    by (subst (asm) iterations.simps, simp split: if_splits)+
  then have "loop_cond ((loop_body ^^ m) (loop_body ls))" using Suc.IH by blast
  then show ?case by (simp add: funpow_swap1)
qed

lemma initLoop_files_length: "length (files (initLoop s)) = length (fileMetadata s)"
  by (simp add: initLoop_def Let_def)

lemma evictLoop_invariant:
  assumes "P ls" and "\<And>l. P l \<Longrightarrow> loop_cond l \<Longrightarrow> P (loop_body l)"
  shows "P (evictLoop ls)"
  using assms(1)
proof (induction ls rule: evictLoop.induct)
  case (1 ls)
  show ?case
  proof (cases "loop_cond ls")
    case True
    with 1 assms(2) show ?thesis by (subst evictLoop.simps) simp
  next
    case False
    with 1 show ?thesis by (subst evictLoop.simps) simp
  qed
qed








section \<open>Entries are removed, never changed\<close>

lemma loop_body_entry:
  "map_of (fileMetadata (srv (loop_body ls))) k = None \<or>
   map_of (fileMetadata (srv (loop_body ls))) k = map_of (fileMetadata (srv ls)) k"
  by (simp add: loop_body_def AList.delete_conv' split: list.split option.split)

lemma capacity_entry:
  "map_of (fileMetadata (manageStorageCapacity s)) k = None \<or>
   map_of (fileMetadata (manageStorageCapacity s)) k = map_of (fileMetadata s) k"
proof -
  let ?P = "\<lambda>l. map_of (fileMetadata (srv l)) k = None \<or>
                 map_of (fileMetadata (srv l)) k = map_of (fileMetadata s) k"
  have "?P (evictLoop (initLoop s))"
  proof (rule evictLoop_invariant [where P = ?P])
    show "?P (initLoop s)" by (simp add: initLoop_def Let_def)
  next
    fix l assume "?P l" "loop_cond l"
    then show "?P (loop_body l)" using loop_body_entry [of l k] by auto
  qed
  then show ?thesis by (simp add: manageStorageCapacity_def)
qed

lemma clean_one_entry:
  "map_of (fileMetadata (clean_one s i)) k = None \<or>
   map_of (fileMetadata (clean_one s i)) k = map_of (fileMetadata s) k"
  by (simp add: clean_one_def AList.delete_conv' split: option.split)

lemma foldl_clean_entry:
  "map_of (fileMetadata (foldl clean_one s ids)) k = None \<or>
   map_of (fileMetadata (foldl clean_one s ids)) k = map_of (fileMetadata s) k"
proof (induction ids arbitrary: s)
  case Nil
  then show ?case by simp
next
  case (Cons i ids)
  from Cons.IH [of "clean_one s i"] clean_one_entry [of s i k] show ?case by auto
qed

lemma upload_entry:
  assumes "req_fileId f \<noteq> k"
  shows "map_of (fileMetadata (snd (upload (Some f) t_meta t_resp s))) k = None \<or>
         map_of (fileMetadata (snd (upload (Some f) t_meta t_resp s))) k = map_of (fileMetadata s) k"
proof -
  let ?md = "\<lparr>originalName = originalname f, size_bytes = req_size f,
     mimetype = req_mimetype f, uploadTime = t_meta, filePath = req_path f,
     filename = req_filename f\<rparr>"
  let ?s1 = "s\<lparr>fileMetadata := AList.update (req_fileId f) ?md (fileMetadata s)\<rparr>"
  from assms have "map_of (fileMetadata ?s1) k = map_of (fileMetadata s) k"
    by (simp add: AList.update_conv')
  with capacity_entry [of ?s1 k] show ?thesis
    by (simp add: upload_def Let_def)
qed

lemma step_entry:
  assumes "\<not> registers k ev"
  shows "map_of (fileMetadata (step s ev)) k = None \<or>
         map_of (fileMetadata (step s ev)) k = map_of (fileMetadata s) k"
proof (cases ev)
  case (Upload fo t_meta t_resp)
  show ?thesis
  proof (cases fo)
    case None
    with Upload show ?thesis by (simp add: upload_def)
  next
    case (Some f)
    from assms Upload Some have "req_fileId f \<noteq> k" by simp
    from upload_entry [OF this, of t_meta t_resp
        "s\<lparr>disk := (disk s)\<lparr>blobs := insert (req_path f) (blobs (disk s))\<rparr>\<rparr>"]
      Upload Some show ?thesis by simp
  qed
next
  case (GetFile i now)
  then show ?thesis
    by (simp add: getFile_def AList.delete_conv' split: option.split)
next
  case (Download i now)
  then show ?thesis
    by (simp add: download_def AList.delete_conv' split: option.split)
next
  case (Preview i now)
  then show ?thesis
    by (simp add: preview_def AList.delete_conv' split: option.split)
next
  case (FilePage i)
  then show ?thesis by (simp add: filePage_def split: option.split)
next
  case (CleanExpired now)
  then show ?thesis using foldl_clean_entry by (simp add: cleanExpiredFiles_def)
next
  case ManageCapacity
  then show ?thesis using capacity_entry by simp
next
  case (Vanish p)
  then show ?thesis by simp
qed

lemma run_entry:
  assumes "\<forall>ev \<in> set evs. \<not> registers k ev"
  shows "map_of (fileMetadata (run s evs)) k = None \<or>
         map_of (fileMetadata (run s evs)) k = map_of (fileMetadata s) k"
  using assms
proof (induction evs arbitrary: s)
  case Nil
  then show ?case by (simp add: run_def)
next
  case (Cons ev evs)
  then have "\<not> registers k ev" and rest: "\<forall>ev \<in> set evs. \<not> registers k ev" by auto
  from step_entry [OF this(1), of s] Cons.IH [OF rest, of "step s ev"] show ?case
    by (auto simp: run_def)
qed

section \<open>Evaluating the examples\<close>

lemmas example_defs =
  six_files_def stored_def id1_def id2_def id3_def id4_def id5_def id6_def GiB_def

lemmas capacity_defs =
  manageStorageCapacity_def initLoop_def loop_cond_def loop_body_def unlink_def
  MAX_STORAGE_def Let_def

section \<open>The handlers and the index\<close>

lemma lazy_expired:
  assumes "h \<in> lazy_handlers" "map_of (fileMetadata s) k = Some m" "now - uploadTime m > TTL"
  shows "h k now s =
     (Expired, \<lparr>fileMetadata = AList.delete k (fileMetadata s),
                disk = unlink_catch (filePath m) (disk s)\<rparr>)"
proof -
  from assms(1) consider "h = getFile" | "h = download" | "h = preview"
    by (auto simp: lazy_handlers_def)
  then show ?thesis
  proof cases
    case 1 with assms(2,3) show ?thesis by (simp add: getFile_def Expired_def)
  next
    case 2 with assms(2,3) show ?thesis by (simp add: download_def Expired_def)
  next
    case 3 with assms(2,3) show ?thesis by (simp add: preview_def Expired_def)
  qed
qed

lemma lazy_absent:
  assumes "h \<in> lazy_handlers" "map_of (fileMetadata s) k = None"
  shows "h k now s = (NotFound, s)"
proof -
  from assms(1) consider "h = getFile" | "h = download" | "h = preview"
    by (auto simp: lazy_handlers_def)
  then show ?thesis
  proof cases
    case 1 with assms(2) show ?thesis by (simp add: getFile_def NotFound_def)
  next
    case 2 with assms(2) show ?thesis by (simp add: download_def NotFound_def)
  next
    case 3 with assms(2) show ?thesis by (simp add: preview_def NotFound_def)
  qed
qed

lemma unlink_catch_removes:
  "p \<notin> undeletable d \<Longrightarrow> p \<notin> blobs (unlink_catch p d)"
  by (auto simp: unlink_catch_def unlink_def)

lemmas picture_defs = picture_def picture_store_def picture_gone_store_def stored_def id1_def




lemma after_upload_run:
  "run after_upload [Download id1 1700000000200, ManageCapacity, CleanExpired 1700000000300] =
     after_upload"
  by (simp add: run_def download_def after_upload_def ten_bytes_stored_def access_def TTL_def
      capacity_defs evictLoop.simps cleanExpiredFiles_def expiredFiles_def)










section \<open>Properties of the capacity reaper\<close>

text \<open>
  C10. A capacity pass terminates whatever the unlinks do: the loop body runs
  \<open>iterations\<close> times, never more often than there are records in the index; the loop
  condition holds before each of these runs and fails after the last; and every run takes
  one candidate off the working list, whether its unlink succeeded or not.
\<close>

theorem capacity_pass_terminates:
  "iterations (initLoop s) \<le> length (fileMetadata s) \<and>
   manageStorageCapacity s = srv ((loop_body ^^ iterations (initLoop s)) (initLoop s)) \<and>
   \<not> loop_cond ((loop_body ^^ iterations (initLoop s)) (initLoop s)) \<and>
   (\<forall>n < iterations (initLoop s).
      loop_cond ((loop_body ^^ n) (initLoop s)) \<and>
      Suc (length (files ((loop_body ^^ Suc n) (initLoop s)))) =
        length (files ((loop_body ^^ n) (initLoop s))))"
proof (intro conjI allI impI)
  show "iterations (initLoop s) \<le> length (fileMetadata s)"
    using iterations_le [of "initLoop s"] by (simp add: initLoop_files_length)
  show "manageStorageCapacity s = srv ((loop_body ^^ iterations (initLoop s)) (initLoop s))"
    by (simp add: manageStorageCapacity_def evictLoop_funpow)
  show "\<not> loop_cond ((loop_body ^^ iterations (initLoop s)) (initLoop s))"
    using evictLoop_stops [of "initLoop s"] by (simp add: evictLoop_funpow)
next
  fix n assume "n < iterations (initLoop s)"
  then show c: "loop_cond ((loop_body ^^ n) (initLoop s))" by (rule iterations_running)
  show "Suc (length (files ((loop_body ^^ Suc n) (initLoop s)))) =
        length (files ((loop_body ^^ n) (initLoop s)))"
    using loop_body_length [OF c] by simp
qed

text \<open>
  With the uploads directory emptied, every one of the six unlinks fails and the loop
  still stops, after six runs.
\<close>

theorem capacity_pass_terminates_witness:
  "iterations (initLoop wiped_store) = 6 \<and>
   length (fileMetadata wiped_store) = 6 \<and>
   loop_cond ((loop_body ^^ 5) (initLoop wiped_store)) \<and>
   Suc (length (files ((loop_body ^^ 6) (initLoop wiped_store)))) =
     length (files ((loop_body ^^ 5) (initLoop wiped_store))) \<and>
   \<not> loop_cond ((loop_body ^^ 6) (initLoop wiped_store))"
proof -
  have n: "iterations (initLoop wiped_store) = 6"
    by (simp add: wiped_store_def example_defs capacity_defs iterations.simps)
  have l: "length (fileMetadata wiped_store) = 6"
    by (simp add: wiped_store_def six_files_def)
  have five: "(5::nat) < 6" and six: "Suc 5 = 6" by simp_all
  from capacity_pass_terminates [of wiped_store]
  have stop: "\<not> loop_cond ((loop_body ^^ 6) (initLoop wiped_store))"
    and each: "\<forall>n < 6. loop_cond ((loop_body ^^ n) (initLoop wiped_store)) \<and>
      Suc (length (files ((loop_body ^^ Suc n) (initLoop wiped_store)))) =
        length (files ((loop_body ^^ n) (initLoop wiped_store)))"
    unfolding n by blast+
  from each five have "loop_cond ((loop_body ^^ 5) (initLoop wiped_store)) \<and>
      Suc (length (files ((loop_body ^^ Suc 5) (initLoop wiped_store)))) =
        length (files ((loop_body ^^ 5) (initLoop wiped_store)))"
    by blast
  with n l stop show ?thesis unfolding six by blast
qed

text \<open>
  C1. The invariant does not hold of the pass as it is written. The loop awaits the
  unlink before it deletes the entry and subtracts the size, in one \<open>try\<close>, so a rejected
  unlink keeps the record and its size. With the uploads directory emptied, six records
  of one gibibyte each, six gibibytes against a cap of five, are all still in the index
  after the pass. The download of the first of them, on the same server, finds the blob
  missing and deletes the stale entry.
\<close>

theorem capacity_pass_keeps_stale_records:
  "total_size (fileMetadata wiped_store) = 6 * GiB \<and>
   MAX_STORAGE = 5 * GiB \<and>
   fileMetadata (manageStorageCapacity wiped_store) = six_files \<and>
   length (fileMetadata (manageStorageCapacity wiped_store)) = 6 \<and>
   total_size (fileMetadata (manageStorageCapacity wiped_store)) = 6 * GiB \<and>
   download id1 1700000000100 wiped_store =
     (IOError, wiped_store\<lparr>fileMetadata := tl six_files\<rparr>)"
proof -
  have "fileMetadata (manageStorageCapacity wiped_store) = six_files"
    by (simp add: wiped_store_def example_defs capacity_defs evictLoop.simps)
  moreover have "total_size six_files = 6 * GiB" "length six_files = 6"
    by (simp_all add: total_size_def example_defs)
  moreover have "MAX_STORAGE = 5 * GiB" by (simp add: MAX_STORAGE_def GiB_def)
  moreover have "download id1 1700000000100 wiped_store =
     (IOError, wiped_store\<lparr>fileMetadata := tl six_files\<rparr>)"
    by (simp add: download_def wiped_store_def example_defs access_def TTL_def IOError_def)
  ultimately show ?thesis by (simp add: wiped_store_def)
qed

text \<open>
  C3. Six records with distinct upload times, any one of which brings the store within
  the cap when removed. The blob of the oldest is gone, its unlink rejects, and the pass
  keeps the oldest record and removes the second oldest, whose file is in place.
\<close>

theorem capacity_pass_skips_stale_oldest:
  "distinct (map (\<lambda>e. uploadTime (snd e)) (fileMetadata oldest_gone_store)) \<and>
   total_size (fileMetadata oldest_gone_store) > MAX_STORAGE \<and>
   total_size (fileMetadata oldest_gone_store) - GiB \<le> MAX_STORAGE \<and>
   list_all (\<lambda>e. uploadTime (snd (hd six_files)) \<le> uploadTime (snd e))
     (fileMetadata oldest_gone_store) \<and>
   fst (hd six_files) = id1 \<and>
   map fst (fileMetadata oldest_gone_store) = [id1, id2, id3, id4, id5, id6] \<and>
   map fst (fileMetadata (manageStorageCapacity oldest_gone_store)) = [id1, id3, id4, id5, id6]"
  by (simp add: oldest_gone_store_def example_defs capacity_defs evictLoop.simps total_size_def)

section \<open>Deletion, expiry and the round trip\<close>

text \<open>
  C5. Both reapers await the unlink before they delete the index entry. An expired
  picture whose blob is gone is still in the index after the expiry pass, where the
  metadata request at the same moment deletes the entry first and answers that the file
  has expired; and with the store above the cap and the blobs gone, the oldest record is
  still in the index after the capacity pass.
\<close>

theorem reapers_keep_entry_on_failed_unlink:
  "map_of (fileMetadata picture_gone_store) id1 = Some (snd picture) \<and>
   1700086400002 - uploadTime (snd picture) > TTL \<and>
   unlink (filePath (snd picture)) (disk picture_gone_store) = None \<and>
   map_of (fileMetadata (cleanExpiredFiles 1700086400002 picture_gone_store)) id1 =
     Some (snd picture) \<and>
   getFile id1 1700086400002 picture_gone_store = (Expired, empty_store) \<and>
   total_size (fileMetadata wiped_store) > MAX_STORAGE \<and>
   unlink (filePath (snd (hd six_files))) (disk wiped_store) = None \<and>
   map_of (fileMetadata (manageStorageCapacity wiped_store)) id1 = Some (snd (hd six_files))"
proof -
  have "fileMetadata (manageStorageCapacity wiped_store) = six_files"
    by (simp add: wiped_store_def example_defs capacity_defs evictLoop.simps)
  moreover have "map_of six_files id1 = Some (snd (hd six_files))"
    by (simp add: example_defs)
  moreover have "total_size (fileMetadata wiped_store) > MAX_STORAGE"
    by (simp add: wiped_store_def example_defs total_size_def MAX_STORAGE_def)
  moreover have "unlink (filePath (snd (hd six_files))) (disk wiped_store) = None"
    by (simp add: wiped_store_def unlink_def)
  moreover have "map_of (fileMetadata picture_gone_store) id1 = Some (snd picture) \<and>
   1700086400002 - uploadTime (snd picture) > TTL \<and>
   unlink (filePath (snd picture)) (disk picture_gone_store) = None \<and>
   map_of (fileMetadata (cleanExpiredFiles 1700086400002 picture_gone_store)) id1 =
     Some (snd picture)"
    by (simp add: picture_defs cleanExpiredFiles_def expiredFiles_def clean_one_def
        unlink_def TTL_def)
  moreover have "getFile id1 1700086400002 picture_gone_store = (Expired, empty_store)"
    by (simp add: getFile_def picture_defs TTL_def Expired_def empty_store_def
        unlink_catch_def unlink_def)
  ultimately show ?thesis by simp
qed

text \<open>
  C2, as amended. For a record past its 24 hours, the first metadata request, download or
  preview of its identifier answers \<open>File has expired\<close>, deletes the index entry and
  attempts the unlink of the blob, dropping a rejection: the directory is unchanged when
  the unlink rejects, and the blob is gone from it when the unlink succeeds (as it does
  whenever the removal is not refused). After that, and after any further events that do
  not upload under the same identifier, every metadata request, download or preview of
  the identifier answers \<open>File not found\<close>, which is a different answer.
\<close>

theorem lazy_expiry_once:
  assumes "map_of (fileMetadata s) k = Some m" "now - uploadTime m > TTL"
    and "h \<in> lazy_handlers" "h' \<in> lazy_handlers"
    and "\<forall>ev \<in> set evs. \<not> registers k ev"
  shows "fst (h k now s) = Expired \<and>
         map_of (fileMetadata (snd (h k now s))) k = None \<and>
         disk (snd (h k now s)) = unlink_catch (filePath m) (disk s) \<and>
         (unlink (filePath m) (disk s) = None \<longrightarrow> disk (snd (h k now s)) = disk s) \<and>
         (unlink (filePath m) (disk s) \<noteq> None \<longrightarrow>
            filePath m \<notin> blobs (disk (snd (h k now s)))) \<and>
         (filePath m \<notin> undeletable (disk s) \<longrightarrow>
            filePath m \<notin> blobs (disk (snd (h k now s)))) \<and>
         fst (h' k now' (run (snd (h k now s)) evs)) = NotFound \<and>
         NotFound \<noteq> Expired"
proof -
  let ?s' = "snd (h k now s)"
  from lazy_expired [OF assms(3) assms(1) assms(2)]
  have r: "h k now s = (Expired, \<lparr>fileMetadata = AList.delete k (fileMetadata s),
                                  disk = unlink_catch (filePath m) (disk s)\<rparr>)" .
  then have gone: "map_of (fileMetadata ?s') k = None"
    by (simp add: AList.delete_conv')
  with run_entry [OF assms(5), of ?s'] have "map_of (fileMetadata (run ?s' evs)) k = None"
    by auto
  then have again: "h' k now' (run ?s' evs) = (NotFound, run ?s' evs)"
    using assms(4) by (simp add: lazy_absent)
  have "filePath m \<notin> blobs (disk ?s')" if "filePath m \<notin> undeletable (disk s)"
    using that by (simp add: r unlink_catch_removes)
  moreover have "disk ?s' = disk s" if "unlink (filePath m) (disk s) = None"
    using that by (simp add: r unlink_catch_def)
  moreover have "filePath m \<notin> blobs (disk ?s')" if "unlink (filePath m) (disk s) \<noteq> None"
    using that by (auto simp: r unlink_catch_def unlink_def split: if_splits)
  moreover have "NotFound \<noteq> Expired" by (simp add: NotFound_def Expired_def)
  ultimately show ?thesis using r gone again by simp
qed

text \<open>
  C2 as stated fails for the blob: when the removal of the blob is refused, each of the
  three handlers answers that the file has expired and deletes the index entry, and the
  blob is still in the directory.
\<close>

theorem lazy_expiry_once_counterexample:
  "map_of (fileMetadata picture_stuck_store) id1 = Some (snd picture) \<and>
   1700086400002 - uploadTime (snd picture) > TTL \<and>
   filePath (snd picture) \<in> blobs (disk picture_stuck_store) \<and>
   getFile id1 1700086400002 picture_stuck_store =
     (Expired, picture_stuck_store\<lparr>fileMetadata := []\<rparr>) \<and>
   download id1 1700086400002 picture_stuck_store =
     (Expired, picture_stuck_store\<lparr>fileMetadata := []\<rparr>) \<and>
   preview id1 1700086400002 picture_stuck_store =
     (Expired, picture_stuck_store\<lparr>fileMetadata := []\<rparr>) \<and>
   filePath (snd picture) \<in> blobs (disk (snd (getFile id1 1700086400002 picture_stuck_store)))"
  by (simp add: getFile_def download_def preview_def picture_stuck_store_def picture_def
      stored_def id1_def TTL_def Expired_def unlink_catch_def unlink_def)

text \<open>
  The picture, a day and a millisecond after its upload: the download answers that it has
  expired, and the metadata request three events later that it is not found.
\<close>

theorem lazy_expiry_once_witness:
  "map_of (fileMetadata picture_store) id1 = Some (snd picture) \<and>
   1700086400002 - uploadTime (snd picture) > TTL \<and>
   download \<in> lazy_handlers \<and> getFile \<in> lazy_handlers \<and>
   list_all (\<lambda>ev. \<not> registers id1 ev)
     [Preview id1 1700086400003, CleanExpired 1700086400004, ManageCapacity] \<and>
   filePath (snd picture) \<notin> undeletable (disk picture_store) \<and>
   fst (download id1 1700086400002 picture_store) = Expired \<and>
   map_of (fileMetadata (snd (download id1 1700086400002 picture_store))) id1 = None \<and>
   filePath (snd picture) \<notin> blobs (disk (snd (download id1 1700086400002 picture_store))) \<and>
   fst (getFile id1 1700086400005
          (run (snd (download id1 1700086400002 picture_store))
             [Preview id1 1700086400003, CleanExpired 1700086400004, ManageCapacity])) =
     NotFound"
proof -
  have a: "map_of (fileMetadata picture_store) id1 = Some (snd picture)"
    by (simp add: picture_defs)
  have e: "1700086400002 - uploadTime (snd picture) > TTL"
    by (simp add: picture_defs TTL_def)
  have h: "download \<in> lazy_handlers" and h': "getFile \<in> lazy_handlers"
    by (simp_all add: lazy_handlers_def)
  have evs: "\<forall>ev \<in> set [Preview id1 1700086400003, CleanExpired 1700086400004, ManageCapacity].
      \<not> registers id1 ev"
    by simp
  have u: "filePath (snd picture) \<notin> undeletable (disk picture_store)"
    by (simp add: picture_defs)
  from lazy_expiry_once [OF a e h h' evs, of 1700086400005] a e h h' evs u show ?thesis
    unfolding list_all_iff by blast
qed




section \<open>The preview\<close>

text \<open>
  C9. The preview of a record that is present and not expired, and whose type starts with
  none of \<open>image/\<close>, \<open>text/\<close>, \<open>application/json\<close>, \<open>application/pdf\<close>, answers
  with status 400 and \<open>File type not previewable\<close>, sends no file and changes nothing.
  The type is looked at last: an identifier that is not in the index gets
  \<open>File not found\<close> and an expired record \<open>File has expired\<close>, whatever the type.
\<close>

theorem preview_rejects_unlisted:
  "(map_of (fileMetadata s) k = None \<longrightarrow> preview k now s = (NotFound, s)) \<and>
   (map_of (fileMetadata s) k = Some m \<and> now - uploadTime m > TTL \<longrightarrow>
      fst (preview k now s) = Expired) \<and>
   (map_of (fileMetadata s) k = Some m \<and> \<not> now - uploadTime m > TTL \<and>
    \<not> startsWith (mimetype m) ''image/'' \<and> \<not> startsWith (mimetype m) ''text/'' \<and>
    \<not> startsWith (mimetype m) ''application/json'' \<and>
    \<not> startsWith (mimetype m) ''application/pdf'' \<longrightarrow>
      preview k now s = (Rejected, s) \<and> Rejected = Json_error 400 ''File type not previewable'' \<and>
      Rejected \<noteq> Send_file hs p)"
  by (simp add: preview_def NotFound_def Expired_def Rejected_def isPreviewable_def
      previewableTypes_def)

text \<open>
  A zip archive: rejected while it is fresh, expired (and not rejected) a day later.
\<close>

theorem preview_rejects_unlisted_witness:
  "map_of (fileMetadata full_store) id1 = Some (snd (hd six_files)) \<and>
   mimetype (snd (hd six_files)) = ''application/zip'' \<and>
   \<not> 1700000000100 - uploadTime (snd (hd six_files)) > TTL \<and>
   preview id1 1700000000100 full_store = (Rejected, full_store) \<and>
   preview id1 1700086400002 full_store \<noteq> (Rejected, full_store) \<and>
   fst (preview id1 1700086400002 full_store) = Expired"
proof -
  have a: "map_of (fileMetadata full_store) id1 = Some (snd (hd six_files))"
    by (simp add: full_store_def example_defs)
  have z: "mimetype (snd (hd six_files)) = ''application/zip''"
    by (simp add: example_defs)
  have t: "\<not> 1700000000100 - uploadTime (snd (hd six_files)) > TTL"
    by (simp add: example_defs TTL_def)
  have t': "1700086400002 - uploadTime (snd (hd six_files)) > TTL"
    by (simp add: example_defs TTL_def)
  have n: "\<not> startsWith (mimetype (snd (hd six_files))) ''image/''"
    "\<not> startsWith (mimetype (snd (hd six_files))) ''text/''"
    "\<not> startsWith (mimetype (snd (hd six_files))) ''application/json''"
    "\<not> startsWith (mimetype (snd (hd six_files))) ''application/pdf''"
    by (simp_all add: z startsWith_def)
  have ne: "Expired \<noteq> Rejected" by (simp add: Expired_def Rejected_def)
  from preview_rejects_unlisted [where s = full_store and k = id1 and m = "snd (hd six_files)"
      and now = 1700000000100] a t n
  have 1: "preview id1 1700000000100 full_store = (Rejected, full_store)" by blast
  from preview_rejects_unlisted [where s = full_store and k = id1 and m = "snd (hd six_files)"
      and now = 1700086400002] a t'
  have 2: "fst (preview id1 1700086400002 full_store) = Expired" by blast
  with ne have 3: "preview id1 1700086400002 full_store \<noteq> (Rejected, full_store)" by auto
  from a z t 1 2 3 show ?thesis by simp
qed

section \<open>Where the handlers differ from one another\<close>

text \<open>
  C4. The expiry sent back by the upload is not the stored upload time plus 24 hours: the
  handler reads the clock a second time for the response, after it has awaited the
  capacity pass. With the clock seven milliseconds further at the response, the upload of
  the ten-byte file reports an expiry seven milliseconds later than the one the metadata
  request computes from \<open>uploadTime\<close>.
\<close>

theorem upload_expiry_drift:
  "upload (Some ten_bytes) 1700000000000 1700000000007 after_write =
     (Json_uploaded id1 ''File uploaded successfully'' 1700086400007, after_upload) \<and>
   fst (getFile id1 1700000000007 after_upload) =
     Json_file id1 ''notes.txt'' 10 ''text/plain'' 1700000000000 1700086400000 \<and>
   uploadTime ten_bytes_stored + TTL = 1700086400000"
  by (simp add: upload_def getFile_def ten_bytes_def ten_bytes_stored_def after_write_def
      after_upload_def capacity_defs evictLoop.simps TTL_def)

text \<open>
  C7. A picture that is in the index and not expired, with its blob gone from the
  directory: the preview does not look at the disk, goes on to \<open>res.sendFile\<close> and
  leaves the stale entry in the index, while the download of the same identifier answers
  \<open>File not found on disk\<close> and deletes the entry.
\<close>

theorem preview_missing_blob:
  "map_of (fileMetadata picture_gone_store) id1 = Some (snd picture) \<and>
   \<not> 1700000000100 - uploadTime (snd picture) > TTL \<and>
   \<not> access (filePath (snd picture)) (disk picture_gone_store) \<and>
   preview id1 1700000000100 picture_gone_store =
     (Send_file [(''Content-Type'', ''image/png'')] (''/app/uploads/'' @ id1 @ ''.png''),
      picture_gone_store) \<and>
   download id1 1700000000100 picture_gone_store = (IOError, empty_store)"
  by (simp add: preview_def download_def picture_defs access_def TTL_def isPreviewable_def
      previewableTypes_def startsWith_def IOError_def empty_store_def)

text \<open>
  C8. The embed page of \<open>src/backend/server.js\<close> never compares the upload time with
  the clock: for a record a day and a millisecond old that is still in the index it sends
  the page with the record's name and size and leaves the record in place, where the
  metadata request at that moment answers \<open>File has expired\<close>.
\<close>

theorem embed_page_ignores_expiry:
  "map_of (fileMetadata picture_store) id1 = Some (snd picture) \<and>
   1700086400002 - uploadTime (snd picture) > TTL \<and>
   filePage id1 picture_store =
     (Send_embed ''file.png'' ''file.png'' 2048 (Some id1) id1, picture_store) \<and>
   fst (getFile id1 1700086400002 picture_store) = Expired"
  by (simp add: filePage_def getFile_def picture_defs TTL_def startsWith_def Expired_def)

end
